theory Spec2Isabelle
  imports Main
begin

section \<open>The HDB resale agent (final.py): values, messages and the outside world\<close>

text \<open>
  The module talks to four collaborators that are not part of its code: the hosted
  chat-completion API, the DuckDB engine, the Python interpreter behind \<open>exec\<close>
  (with pandas and plotly) and the filesystem. Each of them is a field of the record
  \<open>env\<close>; the effects the module has on them are recorded in the record \<open>world\<close>,
  which every function takes and returns. A Python exception is a value of type
  \<open>py_exn\<close>: its class name and the text \<open>str(e)\<close>. A Python \<open>str\<close> is a \<open>string\<close> whose
  characters stand for the Unicode code points of the same number, so the strings of
  this theory are the Python strings with code points below 256.
\<close>

datatype py_exn = Exn string string

fun exn_str :: "py_exn \<Rightarrow> string" where
  "exn_str (Exn c m) = m"

text \<open>
  A cell of a fetched row. \<open>SObj t\<close> is a Python object of class \<open>t\<close> that the json module
  cannot serialise (\<open>date\<close>, \<open>Decimal\<close>, ...); a float is carried by its text.
\<close>

datatype scalar = SNone | SBool bool | SInt int | SFloat string | SStr string | SObj string

type_synonym row = "scalar list"

text \<open>
  What the engine hands back for one statement: the cursor's \<open>description\<close>
  (\<open>None\<close>, or one (name, type) descriptor per column) and the rows still to fetch.
\<close>

record cursor =
  description :: "(string \<times> string) list option"
  pending :: "row list"

text \<open>
  The dict returned by \<open>execute_sql_query\<close>: \<open>{"error": msg}\<close> or
  \<open>{"result_df": {"columns": cols, "rows": rows}}\<close>.
\<close>

datatype sql_out = SqlError string | SqlTable "string list" "row list"

text \<open>
  The dict returned by \<open>generate_visualisation\<close>, in its three shapes:
  \<open>{"success": False, "error": "No `fig` variable created."}\<close>,
  \<open>{"success": True, "uuid": .., "code": .., "fig_path": ..}\<close> and
  \<open>{"success": False, "error": str(e), "traceback": .., "fig_path": None}\<close>.
\<close>

datatype viz_out = VizNoFig | VizOk string string string | VizRaised py_exn

fun success :: "viz_out \<Rightarrow> bool" where
  "success (VizOk u c p) = True"
| "success VizNoFig = False"
| "success (VizRaised e) = False"

text \<open>
  \<open>str(KeyError(k))\<close> is the key between single quotes; \<open>result['error']\<close> raises it on
  the success dict, which has no such key.
\<close>

definition key_error :: "string \<Rightarrow> py_exn" where
  "key_error k = Exn ''KeyError'' (CHR 0x27 # k @ [CHR 0x27])"

fun error_field :: "viz_out \<Rightarrow> py_exn + string" where
  "error_field VizNoFig = Inr ''No `fig` variable created.''"
| "error_field (VizRaised e) = Inr (exn_str e)"
| "error_field (VizOk u c p) = Inl (key_error ''error'')"

text \<open>\<open>result.get("fig_path")\<close>: absent in the first shape, \<open>None\<close> in the third.\<close>

fun fig_path :: "viz_out \<Rightarrow> string option" where
  "fig_path (VizOk u c p) = Some p"
| "fig_path VizNoFig = None"
| "fig_path (VizRaised e) = None"

text \<open>
  Message contents. The text produced by \<open>json.dumps\<close> is represented by the value it
  serialises, and the chart prompt (an f-string) by the two values interpolated into it.
\<close>

datatype content =
    Text string
  | DumpSql "sql_out option"
  | DumpViz viz_out
  | VizPrompt "sql_out option" "string option"

text \<open>
  A tool call of an assistant message: \<open>call.id\<close> and \<open>call.function\<close>, which is
  \<open>None\<close> or carries \<open>name\<close> and \<open>arguments\<close>. The argument text is represented by what
  \<open>json.loads\<close> makes of it: not JSON at all, a JSON value that is no object, or an
  object; the tool schemas declare every parameter a string, so an object is a list of
  (key, string); a key that is absent or \<open>null\<close> reads as \<open>None\<close>.
\<close>

datatype arguments = NotJson string | JsonNoObject string | JsonObject "(string \<times> string) list"

record tool_function =
  fn_name :: "string option"
  fn_arguments :: arguments

record tool_call =
  call_id :: string
  call_function :: "tool_function option"

record assistant_msg =
  msg_content :: "string option"
  tool_calls :: "tool_call list option"

datatype message =
    System string
  | User content
  | Assistant assistant_msg
  | Tool string content

text \<open>
  Python objects that live in the namespaces handed to \<open>exec\<close>. The object that
  generated code binds to \<open>fig\<close> is known by what its two methods do when called: return
  a text, raise an exception derived from \<open>Exception\<close>, or raise one that is not
  (\<open>SystemExit\<close>, \<open>KeyboardInterrupt\<close>), which \<open>except Exception\<close> does not catch.
\<close>

datatype method_outcome = MethodReturned string | MethodRaised py_exn | MethodEscaped py_exn

record figure =
  to_image :: method_outcome
  to_json :: method_outcome

type_synonym dataframe = "string list \<times> row list"

datatype pyobj = PyNone | PyModule string | PyDataFrame dataframe | PyFigure figure

type_synonym namespace = "string \<rightharpoonup> pyobj"

type_synonym filesystem = "string \<rightharpoonup> string"

text \<open>
  What running generated code ends in: an exception derived from \<open>Exception\<close>
  (\<open>ExecRaised\<close>), an exception that is not (\<open>SystemExit\<close>, \<open>KeyboardInterrupt\<close>,
  \<open>GeneratorExit\<close>: \<open>ExecEscaped\<close>, which \<open>except Exception\<close> does not catch), or the
  locals as the code left them.
\<close>

datatype exec_outcome = ExecRaised py_exn | ExecEscaped py_exn | ExecDone namespace

datatype db_event = DbConnect string | DbExecute string | DbClose

text \<open>
  The effects of the module: the files written, how many identifiers were drawn from
  \<open>uuid.uuid4\<close>, what was sent to the data source and the requests sent to the
  chat-completion API (model name and message list), in order.
\<close>

record world =
  files :: filesystem
  uuids_drawn :: nat
  db_log :: "db_event list"
  llm_log :: "(string \<times> message list) list"

text \<open>
  The collaborators. \<open>chat model messages\<close> is \<open>choices[0].message\<close> of the completion;
  \<open>db_connect path\<close> raises or gives a connection, which maps a statement to an exception
  or a cursor; \<open>uuid4 n\<close> is the text of the \<open>n\<close>-th identifier drawn; \<open>pd_DataFrame\<close> builds
  the frame or raises; \<open>py_exec code globals locals fs\<close> runs generated code and returns
  its outcome, with the filesystem as the code left it.
  \<open>system_prompt\<close> is the system message of \<open>main_agent\<close> (it interpolates the schema of
  vars.py and two sentences the source leaves open) and \<open>instructions_key\<close> the parameter
  name of the chart tool, which the source leaves open as well.
\<close>

record env =
  chat :: "string \<Rightarrow> message list \<Rightarrow> assistant_msg"
  db_connect :: "string \<Rightarrow> py_exn + (string \<Rightarrow> py_exn + cursor)"
  uuid4 :: "nat \<Rightarrow> string"
  pd_DataFrame :: "row list \<Rightarrow> string list \<Rightarrow> py_exn + dataframe"
  py_exec :: "string \<Rightarrow> namespace \<Rightarrow> namespace \<Rightarrow> filesystem \<Rightarrow> exec_outcome \<times> filesystem"
  system_prompt :: string
  instructions_key :: string

text \<open>One call of \<open>client.chat.completions.create\<close>, as the world sees it.\<close>

definition log_request :: "string \<Rightarrow> message list \<Rightarrow> world \<Rightarrow> world" where
  "log_request model msgs w = w\<lparr>llm_log := llm_log w @ [(model, msgs)]\<rparr>"

definition DB_PATH :: string where
  "DB_PATH = ''database/HDB_data.db''"

definition OUTPUT_DIR :: string where
  "OUTPUT_DIR = ''visualisation_outputs''"

section \<open>Tool: execute_sql_query\<close>

text \<open>
  \<open>if not sql_query\<close>: \<open>None\<close> and the empty string are falsy, every other string is
  truthy. Everything between \<open>try\<close> and \<open>except Exception\<close> that raises ends in the error
  dict. \<open>fetchmany(1000)\<close> takes the first 1000 pending rows.
\<close>

definition execute_sql_query :: "env \<Rightarrow> string option \<Rightarrow> world \<Rightarrow> sql_out \<times> world" where
  "execute_sql_query e sql_query w =
     (case sql_query of
        None \<Rightarrow> (SqlError ''No SQL query provided'', w)
      | Some q \<Rightarrow>
          if q = [] then (SqlError ''No SQL query provided'', w)
          else
            let w1 = w\<lparr>db_log := db_log w @ [DbConnect DB_PATH]\<rparr> in
            (case db_connect e DB_PATH of
               Inl x \<Rightarrow> (SqlError (''Error executing SQL query: '' @ exn_str x), w1)
             | Inr conn \<Rightarrow>
                 let w2 = w1\<lparr>db_log := db_log w1 @ [DbExecute q]\<rparr> in
                 (case conn q of
                    Inl x \<Rightarrow> (SqlError (''Error executing SQL query: '' @ exn_str x), w2)
                  | Inr c \<Rightarrow>
                      let cols = (case description c of None \<Rightarrow> [] | Some ds \<Rightarrow> map fst ds);
                          rows = take 1000 (pending c);
                          w3 = w2\<lparr>db_log := db_log w2 @ [DbClose]\<rparr>
                      in (SqlTable cols rows, w3))))"

section \<open>Tool: generate_visualisation\<close>

definition quoted :: "string \<Rightarrow> string" where
  "quoted s = CHR 0x27 # s @ [CHR 0x27]"

definition no_attribute :: "string \<Rightarrow> string \<Rightarrow> py_exn" where
  "no_attribute cls attr =
     Exn ''AttributeError'' (quoted cls @ '' object has no attribute '' @ quoted attr)"

text \<open>
  \<open>sql_result["result_df"]\<close> followed by \<open>["rows"]\<close> and \<open>["columns"]\<close>: \<open>None\<close> cannot be
  subscripted, the error dict has no key \<open>result_df\<close>.
\<close>

fun subscript_result_df :: "sql_out option \<Rightarrow> py_exn + (string list \<times> row list)" where
  "subscript_result_df None = Inl (Exn ''TypeError'' (quoted ''NoneType'' @ '' object is not subscriptable''))"
| "subscript_result_df (Some (SqlError m)) = Inl (key_error ''result_df'')"
| "subscript_result_df (Some (SqlTable cols rows)) = Inr (cols, rows)"

text \<open>
  \<open>s.replace(old, "")\<close> deletes the occurrences of \<open>old\<close> from left to right (none when
  \<open>old\<close> is empty); \<open>s.strip()\<close> drops the leading and trailing characters for which
  \<open>str.isspace\<close> holds. Below 256 these are the code points 9 to 13, 28 to 32, 133
  (next line) and 160 (no-break space); the other Unicode spaces lie beyond the
  code points a \<open>string\<close> can hold.
\<close>

function str_remove :: "string \<Rightarrow> string \<Rightarrow> string" where
  "str_remove old [] = []"
| "str_remove old (c # cs) =
     (if old \<noteq> [] \<and> take (length old) (c # cs) = old
      then str_remove old (drop (length old) (c # cs))
      else c # str_remove old cs)"
  by pat_completeness auto
termination
  by (relation "measure (\<lambda>(old, s). length s)") auto

definition py_space :: "char \<Rightarrow> bool" where
  "py_space c = (c \<in> set [CHR 0x09, CHR 0x0A, CHR 0x0B, CHR 0x0C, CHR 0x0D,
                           CHR 0x1C, CHR 0x1D, CHR 0x1E, CHR 0x1F, CHR 0x20,
                           CHR 0x85, CHR 0xA0])"

definition strip :: "string \<Rightarrow> string" where
  "strip s = rev (dropWhile py_space (rev (dropWhile py_space s)))"

definition clean_code :: "string \<Rightarrow> string" where
  "clean_code python_code = strip (str_remove ''```'' (str_remove ''```python'' python_code))"

text \<open>\<open>os.path.join\<close> of two components (POSIX).\<close>

fun os_path_isabs :: "string \<Rightarrow> bool" where
  "os_path_isabs [] = False"
| "os_path_isabs (c # cs) = (c = CHR ''/'')"

definition os_path_join :: "string \<Rightarrow> string \<Rightarrow> string" where
  "os_path_join a b =
     (if os_path_isabs b then b
      else if a = [] \<or> last a = CHR ''/'' then a @ b
      else a @ ''/'' @ b)"

text \<open>The dict \<open>local_ns\<close> that is passed to \<open>exec\<close> as its locals.\<close>

definition local_ns :: "dataframe \<Rightarrow> namespace" where
  "local_ns df = [''pd'' \<mapsto> PyModule ''pandas'', ''df'' \<mapsto> PyDataFrame df,
                  ''px'' \<mapsto> PyModule ''plotly.express'',
                  ''go'' \<mapsto> PyModule ''plotly.graph_objects'']"

text \<open>
  \<open>fig.to_image(format="png")\<close> on an object that is no figure: a module or a frame has
  no such method (the last two equations are never used: \<open>None\<close> is caught by
  \<open>if fig is None\<close>, and a \<open>PyFigure\<close> carries what its own methods do).
\<close>

fun no_to_image :: "pyobj \<Rightarrow> py_exn" where
  "no_to_image (PyModule m) =
     Exn ''AttributeError'' (''module '' @ quoted m @ '' has no attribute '' @ quoted ''to_image'')"
| "no_to_image (PyDataFrame d) = no_attribute ''DataFrame'' ''to_image''"
| "no_to_image PyNone = no_attribute ''NoneType'' ''to_image''"
| "no_to_image (PyFigure f) = no_attribute ''object'' ''to_image''"

text \<open>
  \<open>exec(code, globals, locals)\<close>. The Python library reference: "If the globals dictionary
  does not contain a value for the key \<open>__builtins__\<close>, a reference to the dictionary
  of the built-in module \<open>builtins\<close> is inserted under that key." The interpreter then
  runs the code under these globals and the given locals.
\<close>

definition exec_globals :: "namespace \<Rightarrow> namespace" where
  "exec_globals globals =
     (case globals ''__builtins__'' of
        None \<Rightarrow> globals(''__builtins__'' \<mapsto> PyModule ''builtins'')
      | Some b \<Rightarrow> globals)"

definition exec_code ::
  "env \<Rightarrow> string \<Rightarrow> namespace \<Rightarrow> namespace \<Rightarrow> filesystem \<Rightarrow> exec_outcome \<times> filesystem" where
  "exec_code e code globals locals fs = py_exec e code (exec_globals globals) locals fs"

text \<open>
  The body of \<open>generate_visualisation\<close>. Every exception derived from \<open>Exception\<close>
  between \<open>try\<close> and \<open>except Exception\<close> ends in the third dict shape (\<open>Inr\<close>); an
  exception of the generated code, or of a method of the object it bound to \<open>fig\<close>,
  that the clause does not catch leaves the function (\<open>Inl\<close>). A file opened for writing exists from the \<open>open\<close> on, so the description
  file is there, empty, while \<open>fig.to_json()\<close> runs.
\<close>

definition generate_visualisation ::
  "env \<Rightarrow> sql_out option \<Rightarrow> string \<Rightarrow> world \<Rightarrow> (py_exn + viz_out) \<times> world" where
  "generate_visualisation e sql_result python_code w =
     (let result_id = uuid4 e (uuids_drawn w);
          w1 = w\<lparr>uuids_drawn := Suc (uuids_drawn w)\<rparr>
      in case subscript_result_df sql_result of
           Inl x \<Rightarrow> (Inr (VizRaised x), w1)
         | Inr (cols, rows) \<Rightarrow>
             (case pd_DataFrame e rows cols of
                Inl x \<Rightarrow> (Inr (VizRaised x), w1)
              | Inr df \<Rightarrow>
                  let code = clean_code python_code;
                      (out, fs) = exec_code e code Map.empty (local_ns df) (files w1);
                      w2 = w1\<lparr>files := fs\<rparr>
                  in (case out of
                        ExecEscaped x \<Rightarrow> (Inl x, w2)
                      | ExecRaised x \<Rightarrow> (Inr (VizRaised x), w2)
                      | ExecDone ns \<Rightarrow>
                          (case ns ''fig'' of
                             None \<Rightarrow> (Inr VizNoFig, w2)
                           | Some PyNone \<Rightarrow> (Inr VizNoFig, w2)
                           | Some (PyFigure fig) \<Rightarrow>
                               let img_path = os_path_join OUTPUT_DIR (result_id @ ''.png'') in
                               (case to_image fig of
                                  MethodEscaped x \<Rightarrow> (Inl x, w2)
                                | MethodRaised x \<Rightarrow> (Inr (VizRaised x), w2)
                                | MethodReturned img_bytes \<Rightarrow>
                                    let w3 = w2\<lparr>files := (files w2)(img_path \<mapsto> img_bytes)\<rparr>;
                                        fig_json_path = os_path_join OUTPUT_DIR (result_id @ ''_fig.json'');
                                        w4 = w3\<lparr>files := (files w3)(fig_json_path \<mapsto> [])\<rparr>
                                    in (case to_json fig of
                                          MethodEscaped x \<Rightarrow> (Inl x, w4)
                                        | MethodRaised x \<Rightarrow> (Inr (VizRaised x), w4)
                                        | MethodReturned js \<Rightarrow>
                                            (Inr (VizOk result_id code fig_json_path),
                                             w4\<lparr>files := (files w4)(fig_json_path \<mapsto> js)\<rparr>)))
                           | Some other \<Rightarrow> (Inr (VizRaised (no_to_image other)), w2)))))"

section \<open>Tool: execute_visualisation_code\<close>

definition CODER_MODEL :: string where
  "CODER_MODEL = ''qwen/qwen-2.5-coder-32b-instruct:free''"

text \<open>
  \<open>json.dumps\<close> of a tool result raises \<open>TypeError\<close> at the first cell it cannot
  serialise; \<open>None\<close> and the error dict always serialise.
\<close>

fun not_serialisable :: "scalar \<Rightarrow> string option" where
  "not_serialisable (SObj t) = Some t"
| "not_serialisable v = None"

fun json_dumps :: "sql_out option \<Rightarrow> py_exn + content" where
  "json_dumps (Some (SqlTable cols rows)) =
     (case List.map_filter not_serialisable (concat rows) of
        [] \<Rightarrow> Inr (DumpSql (Some (SqlTable cols rows)))
      | t # ts \<Rightarrow> Inl (Exn ''TypeError'' (''Object of type '' @ t @ '' is not JSON serializable'')))"
| "json_dumps r = Inr (DumpSql r)"

definition retry_message :: "string \<Rightarrow> string \<Rightarrow> message" where
  "retry_message err code =
     User (Text (''Your code failed with error: '' @ err @ ''. Fix it. Code was: '' @ code))"

text \<open>
  The \<open>while tries < 3\<close> loop, with \<open>result\<close> unbound (\<open>None\<close> here) before the first pass.
  Each pass sends \<open>messages\<close> to the coder model; a reply without content has no
  \<open>strip\<close>, and that \<open>AttributeError\<close> is not caught, nor is what escapes from
  \<open>generate_visualisation\<close>.
\<close>

function viz_loop ::
  "env \<Rightarrow> sql_out option \<Rightarrow> message list \<Rightarrow> nat \<Rightarrow> viz_out option \<Rightarrow> world \<Rightarrow> (py_exn + viz_out) \<times> world" where
  "viz_loop e sql_result messages tries result w =
     (if tries < 3 then
        let w1 = log_request CODER_MODEL messages w in
        (case msg_content (chat e CODER_MODEL messages) of
           None \<Rightarrow> (Inl (no_attribute ''NoneType'' ''strip''), w1)
         | Some c \<Rightarrow>
             let code = strip c;
                 (g, w2) = generate_visualisation e sql_result code w1
             in (case g of
                   Inl x \<Rightarrow> (Inl x, w2)
                 | Inr r \<Rightarrow>
                     if success r then (Inr r, w2)
                     else (case error_field r of
                             Inl x \<Rightarrow> (Inl x, w2)
                           | Inr err \<Rightarrow>
                               viz_loop e sql_result (messages @ [retry_message err code])
                                 (tries + 1) (Some r) w2)))
      else (case result of
              None \<Rightarrow> (Inl (Exn ''UnboundLocalError'' ''result''), w)
            | Some r \<Rightarrow> (Inr r, w)))"
  by pat_completeness auto
termination
  by (relation "measure (\<lambda>(e, sql_result, messages, tries, result, w). 3 - tries)") auto

declare viz_loop.simps [simp del]

text \<open>
  Modelled from the spec: the expression interpolated into the prompt after "Write a
  self-contained Python snippet that:" (line 154 of final.py leaves it open) is the
  natural-language description of the desired chart, the parameter \<open>instructions\<close>.
\<close>

definition prompt_task :: "string option \<Rightarrow> string option" where
  "prompt_task instructions = instructions"

text \<open>
  The prompt also interpolates \<open>json.dumps(sql_result, indent=2)\<close>, which may raise
  before any request is made.
\<close>

definition execute_visualisation_code ::
  "env \<Rightarrow> string option \<Rightarrow> sql_out option \<Rightarrow> world \<Rightarrow> (py_exn + viz_out) \<times> world" where
  "execute_visualisation_code e instructions sql_result w =
     (case json_dumps sql_result of
        Inl x \<Rightarrow> (Inl x, w)
      | Inr d \<Rightarrow>
          viz_loop e sql_result [User (VizPrompt sql_result (prompt_task instructions))] 0 None w)"

section \<open>The agent loop: main_agent\<close>

definition AGENT_MODEL :: string where
  "AGENT_MODEL = ''deepseek/deepseek-chat-v3.1:free''"

record turn =
  messages :: "message list"
  results :: "sql_out option"
  viz_result :: "viz_out option"

record turn_output =
  insights :: "string option"
  result_df :: "(string list \<times> row list) option"
  visualisation :: "string option"

text \<open>\<open>json.loads(call.function.arguments)\<close> and \<open>args.get(key)\<close>.\<close>

fun json_loads :: "arguments \<Rightarrow> py_exn + arguments" where
  "json_loads (NotJson m) = Inl (Exn ''JSONDecodeError'' m)"
| "json_loads a = Inr a"

fun args_get :: "arguments \<Rightarrow> string \<Rightarrow> py_exn + string option" where
  "args_get (JsonObject kvs) k = Inr (map_of kvs k)"
| "args_get (JsonNoObject cls) k = Inl (no_attribute cls ''get'')"
| "args_get (NotJson m) k = Inl (no_attribute ''str'' ''get'')"

text \<open>
  \<open>name = call.function.name if call.function else None\<close> is \<open>tool_name\<close> below;
  \<open>if not name\<close> holds for \<open>None\<close> and the empty string.
\<close>

fun falsy :: "string option \<Rightarrow> bool" where
  "falsy None = True"
| "falsy (Some s) = (s = [])"

text \<open>
  One pass of \<open>for call in msg.tool_calls\<close>. The arguments are decoded before the name is
  looked at, and \<open>call.function.arguments\<close> is read even when \<open>call.function\<close> is \<open>None\<close>.
  In the SQL branch the \<open>print\<close> after the call subscripts \<open>results['result_df']\<close>.
  There is no \<open>else\<close> after the two tool names.
\<close>

definition tool_name :: "tool_call \<Rightarrow> string option" where
  "tool_name call = (case call_function call of None \<Rightarrow> None | Some f \<Rightarrow> fn_name f)"

text \<open>
  Modelled from the spec: the expression assigned to \<open>instructions\<close> (line 259 of
  final.py leaves it open) is "the supplied instructions", read as \<open>args.get\<close> of the
  chart tool's parameter.
\<close>

definition supplied_instructions :: "env \<Rightarrow> arguments \<Rightarrow> py_exn + string option" where
  "supplied_instructions e args = args_get args (instructions_key e)"

definition dispatch_call :: "env \<Rightarrow> tool_call \<Rightarrow> turn \<Rightarrow> world \<Rightarrow> (py_exn + turn) \<times> world" where
  "dispatch_call e call t w =
     (let name = tool_name call in
      case call_function call of
        None \<Rightarrow> (Inl (no_attribute ''NoneType'' ''arguments''), w)
      | Some f \<Rightarrow>
          (case json_loads (fn_arguments f) of
             Inl x \<Rightarrow> (Inl x, w)
           | Inr args \<Rightarrow>
               if falsy name then
                 (Inr (t\<lparr>messages := messages t @ [Tool (call_id call) (Text ''Tool call missing name.'')]\<rparr>), w)
               else if name = Some ''execute_sql_query'' then
                 (case args_get args ''sql_query'' of
                    Inl x \<Rightarrow> (Inl x, w)
                  | Inr sql_query \<Rightarrow>
                      let (res, w1) = execute_sql_query e sql_query w;
                          t1 = t\<lparr>results := Some res\<rparr>
                      in (case subscript_result_df (results t1) of
                            Inl x \<Rightarrow> (Inl x, w1)
                          | Inr tbl \<Rightarrow>
                              (case json_dumps (results t1) of
                                 Inl x \<Rightarrow> (Inl x, w1)
                               | Inr d \<Rightarrow>
                                   (Inr (t1\<lparr>messages := messages t1 @ [Tool (call_id call) d]\<rparr>), w1))))
               else if name = Some ''execute_visualisation_code'' then
                 (case supplied_instructions e args of
                    Inl x \<Rightarrow> (Inl x, w)
                  | Inr instructions \<Rightarrow>
                      (case execute_visualisation_code e instructions (results t) w of
                         (Inl x, w1) \<Rightarrow> (Inl x, w1)
                       | (Inr v, w1) \<Rightarrow>
                           (Inr (t\<lparr>viz_result := Some v,
                                   messages := messages t @ [Tool (call_id call) (DumpViz v)]\<rparr>), w1)))
               else (Inr t, w)))"

fun dispatch_calls :: "env \<Rightarrow> tool_call list \<Rightarrow> turn \<Rightarrow> world \<Rightarrow> (py_exn + turn) \<times> world" where
  "dispatch_calls e [] t w = (Inr t, w)"
| "dispatch_calls e (call # calls) t w =
     (case dispatch_call e call t w of
        (Inl x, w1) \<Rightarrow> (Inl x, w1)
      | (Inr t1, w1) \<Rightarrow> dispatch_calls e calls t1 w1)"

text \<open>
  Modelled from the spec: the three values of the returned dict (lines 274 to 276 of
  final.py leave them open; the guards \<open>if results\<close> and \<open>if viz_result\<close> are in the
  source). The insight text is the model's free-text content, \<open>result_df\<close> the retained
  Query Result (columns and rows) and \<open>visualisation\<close> the path to the chart-description
  file, absent when the retained chart outcome has none.
\<close>

definition final_output :: "assistant_msg \<Rightarrow> turn \<Rightarrow> turn_output" where
  "final_output msg t =
     \<lparr>insights = msg_content msg,
      result_df = (case results t of
                     None \<Rightarrow> None
                   | Some (SqlTable cols rows) \<Rightarrow> Some (cols, rows)
                   | Some (SqlError m) \<Rightarrow> None),
      visualisation = (case viz_result t of None \<Rightarrow> None | Some v \<Rightarrow> fig_path v)\<rparr>"

text \<open>
  \<open>while True\<close>: the only exits are the \<open>return\<close> of the branch without tool calls and an
  exception out of the dispatch. \<open>if msg.tool_calls\<close> is false for \<open>None\<close> and for the
  empty list. The loop has no bound, so it is a partial function: \<open>None\<close> is the run
  that never ends, \<open>Some (Inl x, w)\<close> the run that raises \<open>x\<close> and \<open>Some (Inr out, w)\<close>
  the run that returns \<open>out\<close>.
\<close>

partial_function (option) agent_loop ::
  "env \<Rightarrow> turn \<Rightarrow> world \<Rightarrow> ((py_exn + turn_output) \<times> world) option" where
  "agent_loop e t w =
     (let w1 = log_request AGENT_MODEL (messages t) w;
          msg = chat e AGENT_MODEL (messages t);
          t1 = t\<lparr>messages := messages t @ [Assistant msg]\<rparr>
      in case tool_calls msg of
           None \<Rightarrow> Some (Inr (final_output msg t1), w1)
         | Some [] \<Rightarrow> Some (Inr (final_output msg t1), w1)
         | Some (call # calls) \<Rightarrow>
             (case dispatch_calls e (call # calls) t1 w1 of
                (Inl x, w2) \<Rightarrow> Some (Inl x, w2)
              | (Inr t2, w2) \<Rightarrow> agent_loop e t2 w2))"

definition main_agent :: "env \<Rightarrow> string \<Rightarrow> world \<Rightarrow> ((py_exn + turn_output) \<times> world) option" where
  "main_agent e user_input w =
     agent_loop e \<lparr>messages = [System (system_prompt e), User (Text user_input)],
                   results = None, viz_result = None\<rparr> w"

section \<open>Notions used to state the properties\<close>

text \<open>
  The tool calls a response carries (none for \<open>None\<close> and for the empty list), a model
  that requests a tool on every call, a dispatch that never raises for what that model
  requests, and a retained result that is a Query Result (a table, not \<open>None\<close> and not
  an error dict).
\<close>

definition requested :: "assistant_msg \<Rightarrow> tool_call list" where
  "requested msg = (case tool_calls msg of None \<Rightarrow> [] | Some calls \<Rightarrow> calls)"

definition always_requests :: "env \<Rightarrow> bool" where
  "always_requests e = (\<forall>msgs. requested (chat e AGENT_MODEL msgs) \<noteq> [])"

definition never_raises :: "env \<Rightarrow> bool" where
  "never_raises e =
     (\<forall>msgs t w x w'. dispatch_calls e (requested (chat e AGENT_MODEL msgs)) t w \<noteq> (Inl x, w'))"

fun has_table :: "sql_out option \<Rightarrow> bool" where
  "has_table (Some (SqlTable cols rows)) = True"
| "has_table r = False"

section \<open>Example collaborators\<close>

text \<open>
  A data source with one table of 1500 rows, an interpreter that knows five snippets,
  identifiers \<open>a\<close>, \<open>aa\<close>, \<open>aaa\<close>, ... and a chat API that replays a script: the agent
  model answers with the next message of its script, the coder model with the next
  snippet of its own; an exhausted coder script gives a reply without content.
\<close>

definition empty_world :: world where
  "empty_world = \<lparr>files = Map.empty, uuids_drawn = 0, db_log = [], llm_log = []\<rparr>"

definition sample_cursor :: cursor where
  "sample_cursor = \<lparr>description = Some [(''town'', ''VARCHAR'')],
                    pending = replicate 1500 [SStr ''BEDOK'']\<rparr>"

definition sample_connection :: "string \<Rightarrow> py_exn + cursor" where
  "sample_connection stmt =
     (if stmt = ''SELECT town FROM resale_data_2017_to_2025'' then Inr sample_cursor
      else Inl (Exn ''ParserException'' ''Parser Error: statement rejected''))"

definition sample_figure :: figure where
  "sample_figure = \<lparr>to_image = MethodReturned ''PNG'', to_json = MethodReturned ''{}''\<rparr>"

definition sample_exec ::
  "string \<Rightarrow> namespace \<Rightarrow> namespace \<Rightarrow> filesystem \<Rightarrow> exec_outcome \<times> filesystem" where
  "sample_exec code globals locals fs =
     (if code = ''fig = px.bar(df, x=df.columns[0])''
      then (ExecDone (locals(''fig'' \<mapsto> PyFigure sample_figure)), fs)
      else if code = ''assert len(df) > 1000''
      then (ExecRaised (Exn ''AssertionError'' []), fs)
      else if code = ''chart = px.bar(df)''
      then (ExecDone (locals(''chart'' \<mapsto> PyFigure sample_figure)), fs)
      else if code = ''raise SystemExit''
      then (ExecEscaped (Exn ''SystemExit'' []), fs)
      else (ExecRaised (Exn ''SyntaxError'' ''invalid syntax (<string>, line 1)''), fs))"

definition sample_uuid4 :: "nat \<Rightarrow> string" where
  "sample_uuid4 n = replicate (Suc n) (CHR ''a'')"

definition sample_env :: "(string \<Rightarrow> message list \<Rightarrow> assistant_msg) \<Rightarrow> env" where
  "sample_env c =
     \<lparr>chat = c, db_connect = (\<lambda>path. Inr sample_connection), uuid4 = sample_uuid4,
      pd_DataFrame = (\<lambda>rows cols. Inr (cols, rows)), py_exec = sample_exec,
      system_prompt = ''You are an agent that answers questions about HDB resale prices.'',
      instructions_key = ''instructions''\<rparr>"

fun is_assistant :: "message \<Rightarrow> bool" where
  "is_assistant (Assistant m) = True"
| "is_assistant m = False"

definition scripted_chat ::
  "assistant_msg list \<Rightarrow> string list \<Rightarrow> string \<Rightarrow> message list \<Rightarrow> assistant_msg" where
  "scripted_chat agent_script coder_script model msgs =
     (if model = AGENT_MODEL then
        (case drop (length (filter is_assistant msgs)) agent_script of
           [] \<Rightarrow> \<lparr>msg_content = Some ''No further insight.'', tool_calls = None\<rparr>
         | m # ms \<Rightarrow> m)
      else
        (case drop (length msgs - 1) coder_script of
           [] \<Rightarrow> \<lparr>msg_content = None, tool_calls = None\<rparr>
         | c # cs \<Rightarrow> \<lparr>msg_content = Some c, tool_calls = None\<rparr>))"

definition request :: "string \<Rightarrow> string option \<Rightarrow> arguments \<Rightarrow> assistant_msg" where
  "request cid name args =
     \<lparr>msg_content = None,
      tool_calls = Some [\<lparr>call_id = cid,
                          call_function = Some \<lparr>fn_name = name, fn_arguments = args\<rparr>\<rparr>]\<rparr>"

definition sample_table :: "sql_out option" where
  "sample_table = Some (SqlTable [''town''] [[SStr ''BEDOK'']])"

definition three_failures :: env where
  "three_failures = sample_env (scripted_chat []
      [''chart = px.bar(df)'', ''assert len(df) > 1000'', ''fig = px.bar(df''])"

definition failing_coder :: env where
  "failing_coder = sample_env (scripted_chat []
      [''assert len(df) > 1000'', ''assert len(df) > 1000'', ''assert len(df) > 1000''])"

definition exiting_coder :: env where
  "exiting_coder = sample_env (scripted_chat [] [''raise SystemExit''])"

definition charting_coder :: env where
  "charting_coder = sample_env (scripted_chat [] [''fig = px.bar(df, x=df.columns[0])''])"

text \<open>A model that asks for an unknown tool on every call, and one whose arguments never decode.\<close>

definition looping_env :: env where
  "looping_env = sample_env (\<lambda>model msgs. request ''call_0'' (Some ''get_weather'') (JsonObject []))"

definition stubborn_env :: env where
  "stubborn_env = sample_env (\<lambda>model msgs.
      request ''call_0'' (Some ''execute_sql_query'') (NotJson ''Expecting value: line 1 column 1 (char 0)''))"




section \<open>Properties of execute_sql_query\<close>

lemma models_differ [simp]: "CODER_MODEL \<noteq> AGENT_MODEL" "AGENT_MODEL \<noteq> CODER_MODEL"
  by (simp_all add: CODER_MODEL_def AGENT_MODEL_def)


text \<open>
  C2. Whenever \<open>execute_sql_query\<close> succeeds, the result holds at most 1000 rows: they
  are the first 1000 rows of what the statement produced on the engine, the rest is
  dropped, and the outcome is the table, not an error.
\<close>

theorem execute_sql_query_row_cap:
  assumes "execute_sql_query e sql_query w = (SqlTable cols rows, w')"
  shows "length rows \<le> 1000 \<and>
         (\<exists>q conn c. sql_query = Some q \<and> db_connect e DB_PATH = Inr conn \<and> conn q = Inr c \<and>
                     rows = take 1000 (pending c))"
  using assms
  by (auto simp: execute_sql_query_def Let_def split: option.splits if_splits sum.splits)

text \<open>The sample table has 1500 rows; the query over it returns 1000 of them.\<close>

theorem execute_sql_query_row_cap_witness:
  "fst (execute_sql_query (sample_env (scripted_chat [] []))
          (Some ''SELECT town FROM resale_data_2017_to_2025'') empty_world)
     = SqlTable [''town''] (replicate 1000 [SStr ''BEDOK''])
   \<and> length (pending sample_cursor) = 1500
   \<and> length (replicate 1000 [SStr ''BEDOK'']) \<le> 1000"
proof -
  obtain w' where h: "execute_sql_query (sample_env (scripted_chat [] []))
          (Some ''SELECT town FROM resale_data_2017_to_2025'') empty_world
     = (SqlTable [''town''] (replicate 1000 [SStr ''BEDOK'']), w')"
    by (simp add: sample_env_def execute_sql_query_def sample_connection_def sample_cursor_def Let_def)
  from execute_sql_query_row_cap[OF h] h show ?thesis
    by (simp add: sample_cursor_def)
qed

text \<open>
  C3, as the code has it. An absent statement (\<open>None\<close>) and the empty string give the
  input error as data, and the world is unchanged: nothing is sent to the data source.
\<close>

theorem execute_sql_query_empty:
  "execute_sql_query e None w = (SqlError ''No SQL query provided'', w) \<and>
   execute_sql_query e (Some []) w = (SqlError ''No SQL query provided'', w)"
  by (simp add: execute_sql_query_def)

text \<open>
  C3 as stated fails for a whitespace-only statement: three blanks are truthy in Python,
  so the statement is sent to the data source.
\<close>

theorem execute_sql_query_whitespace_counterexample:
  "db_log (snd (execute_sql_query (sample_env (scripted_chat [] [])) (Some ''   '') empty_world))
     = [DbConnect DB_PATH, DbExecute ''   '']"
  by (simp add: sample_env_def execute_sql_query_def sample_connection_def Let_def empty_world_def)

section \<open>Properties of the dispatch and of the loop\<close>

text \<open>
  C1, at a failing input. The model asks for a query over a table that does not exist;
  the engine rejects it, \<open>execute_sql_query\<close> returns the error dict, and the \<open>print\<close>
  that follows raises \<open>KeyError: 'result_df'\<close> out of \<open>main_agent\<close>.
\<close>

theorem main_agent_sql_error_raises:
  "map_option fst (main_agent
       (sample_env (scripted_chat
          [request ''call_1'' (Some ''execute_sql_query'')
             (JsonObject [(''sql_query'', ''SELECT * FROM resale_2016'')])] []))
       ''How many flats were sold in 2016?'' empty_world)
   = Some (Inl (key_error ''result_df''))"
  unfolding main_agent_def
  by (subst agent_loop.simps)
     (simp add: sample_env_def scripted_chat_def request_def dispatch_call_def tool_name_def
        execute_sql_query_def sample_connection_def Let_def log_request_def empty_world_def)

text \<open>
  What the chain of branches does with a call whose arguments decode and whose name is
  neither of the two tools.
\<close>

lemma dispatch_call_other_name:
  assumes "call_function call = Some f"
      and "json_loads (fn_arguments f) = Inr args"
      and "fn_name f \<noteq> Some ''execute_sql_query''"
      and "fn_name f \<noteq> Some ''execute_visualisation_code''"
  shows "dispatch_call e call t w =
           (Inr (if falsy (fn_name f)
                 then t\<lparr>messages := messages t @ [Tool (call_id call) (Text ''Tool call missing name.'')]\<rparr>
                 else t), w)"
  using assms by (simp add: dispatch_call_def tool_name_def)

text \<open>
  C6, at a failing input. Two calls that differ only in the name: for the unknown name
  \<open>get_weather\<close> no branch is taken, the transcript stays empty and no tool-result
  message reports the omission; for the missing name the sibling branch (lines 239 to
  245) appends its tool-result message. In both cases the turn goes on.
\<close>

theorem dispatch_unknown_tool_not_reported:
  "dispatch_call (sample_env (scripted_chat [] []))
      \<lparr>call_id = ''call_7'', call_function = Some \<lparr>fn_name = Some ''get_weather'', fn_arguments = JsonObject []\<rparr>\<rparr>
      \<lparr>messages = [], results = None, viz_result = None\<rparr> empty_world
   = (Inr \<lparr>messages = [], results = None, viz_result = None\<rparr>, empty_world)
   \<and>
   dispatch_call (sample_env (scripted_chat [] []))
      \<lparr>call_id = ''call_7'', call_function = Some \<lparr>fn_name = None, fn_arguments = JsonObject []\<rparr>\<rparr>
      \<lparr>messages = [], results = None, viz_result = None\<rparr> empty_world
   = (Inr \<lparr>messages = [Tool ''call_7'' (Text ''Tool call missing name.'')], results = None, viz_result = None\<rparr>,
      empty_world)"
  by (simp add: dispatch_call_def tool_name_def)

text \<open>
  C8. When the first response carries no tool call, \<open>main_agent\<close> returns after that one
  request to the model (the only entry added to the log), with the response's content
  as insights and with \<open>result_df\<close> and \<open>visualisation\<close> both \<open>None\<close>.
\<close>

theorem main_agent_direct_answer:
  assumes "requested (chat e AGENT_MODEL [System (system_prompt e), User (Text user_input)]) = []"
  shows "main_agent e user_input w =
           Some (Inr \<lparr>insights = msg_content (chat e AGENT_MODEL [System (system_prompt e), User (Text user_input)]),
                      result_df = None, visualisation = None\<rparr>,
                 w\<lparr>llm_log := llm_log w @ [(AGENT_MODEL, [System (system_prompt e), User (Text user_input)])]\<rparr>)"
  using assms unfolding main_agent_def
  by (subst agent_loop.simps)
     (simp add: Let_def requested_def final_output_def log_request_def split: option.splits list.splits)

theorem main_agent_direct_answer_witness:
  "main_agent (sample_env (scripted_chat [\<lparr>msg_content = Some ''The table has one row per resale transaction.'', tool_calls = None\<rparr>] []))
      ''What columns does the table have?'' empty_world
   = Some (Inr \<lparr>insights = Some ''The table has one row per resale transaction.'', result_df = None, visualisation = None\<rparr>,
           empty_world\<lparr>llm_log := [(AGENT_MODEL,
              [System ''You are an agent that answers questions about HDB resale prices.'',
               User (Text ''What columns does the table have?'')])]\<rparr>)"
  using main_agent_direct_answer[of "sample_env (scripted_chat [\<lparr>msg_content = Some ''The table has one row per resale transaction.'', tool_calls = None\<rparr>] [])"
      "''What columns does the table have?''" empty_world]
  by (simp add: sample_env_def scripted_chat_def requested_def empty_world_def)

section \<open>Properties of generate_visualisation\<close>

text \<open>What \<open>exec\<close> is entered with when it is given an empty globals dict and \<open>local_ns\<close>.\<close>

lemma exec_code_scope:
  "exec_code e code Map.empty (local_ns df) fs =
     py_exec e code [''__builtins__'' \<mapsto> PyModule ''builtins''] (local_ns df) fs
   \<and> dom (local_ns df) = {''pd'', ''df'', ''px'', ''go''}
   \<and> local_ns df ''df'' = Some (PyDataFrame df)"
  by (auto simp: exec_code_def exec_globals_def local_ns_def)




section \<open>Properties of the chart tools\<close>

lemma generate_visualisation_llm_log:
  "generate_visualisation e s c w = (r, w') \<Longrightarrow> llm_log w' = llm_log w"
  by (auto simp: generate_visualisation_def Let_def
           split: option.splits sum.splits prod.splits exec_outcome.splits pyobj.splits
                  method_outcome.splits)

lemma generate_visualisation_draws_one:
  "generate_visualisation e s c w = (r, w') \<Longrightarrow> uuids_drawn w' = Suc (uuids_drawn w)"
  by (auto simp: generate_visualisation_def Let_def
           split: option.splits sum.splits prod.splits exec_outcome.splits pyobj.splits
                  method_outcome.splits)

lemma error_field_failure:
  "error_field r = Inr m \<Longrightarrow> \<not> success r \<and> fig_path r = None"
  by (cases r) auto

lemma viz_loop_pass:
  assumes "tries < 3"
      and "msg_content (chat e CODER_MODEL m) = Some c"
      and "generate_visualisation e s (strip c) (log_request CODER_MODEL m w) = (Inr r, w1)"
      and "error_field r = Inr err"
  shows "viz_loop e s m tries res w =
           viz_loop e s (m @ [retry_message err (strip c)]) (Suc tries) (Some r) w1"
  using assms error_field_failure[OF assms(4)]
  by (subst viz_loop.simps) (simp add: Let_def)

lemma viz_loop_escape:
  assumes "tries < 3"
      and "msg_content (chat e CODER_MODEL m) = Some c"
      and "generate_visualisation e s (strip c) (log_request CODER_MODEL m w) = (Inl x, w1)"
  shows "viz_loop e s m tries res w = (Inl x, w1)"
  using assms by (subst viz_loop.simps) (simp add: Let_def)

lemma viz_loop_exit:
  "viz_loop e s m 3 (Some r) w = (Inr r, w)"
  by (subst viz_loop.simps) simp

text \<open>
  C4, as the code has it. Take a request whose table serialises to JSON, so that the
  prompt can be built, and whose three attempts all fail: each reply of the coder
  model has content, and \<open>generate_visualisation\<close> returns for it an outcome that
  carries an error (the generated code, or the building and rendering of the chart
  around it, raised an exception derived from \<open>Exception\<close>, or the code left no \<open>fig\<close>;
  the \<open>error\<close> key exists exactly in the two failure shapes). Then
  \<open>execute_visualisation_code\<close> returns the third outcome, which is no success, has
  the error of the third attempt and no artifact path; it has sent exactly three
  requests to the coder model, the second and third extended by the error and the
  code of the attempt before, and has run \<open>generate_visualisation\<close> three times. The
  error text itself may be empty.
\<close>

theorem execute_visualisation_code_exhaustion:
  assumes "json_dumps sql_result = Inr d"
      and "m1 = [User (VizPrompt sql_result instructions)]"
      and "msg_content (chat e CODER_MODEL m1) = Some c1"
      and "generate_visualisation e sql_result (strip c1) (log_request CODER_MODEL m1 w) = (Inr r1, w1)"
      and "error_field r1 = Inr e1"
      and "m2 = m1 @ [retry_message e1 (strip c1)]"
      and "msg_content (chat e CODER_MODEL m2) = Some c2"
      and "generate_visualisation e sql_result (strip c2) (log_request CODER_MODEL m2 w1) = (Inr r2, w2)"
      and "error_field r2 = Inr e2"
      and "m3 = m2 @ [retry_message e2 (strip c2)]"
      and "msg_content (chat e CODER_MODEL m3) = Some c3"
      and "generate_visualisation e sql_result (strip c3) (log_request CODER_MODEL m3 w2) = (Inr r3, w3)"
      and "error_field r3 = Inr e3"
  shows "execute_visualisation_code e instructions sql_result w = (Inr r3, w3) \<and>
         \<not> success r3 \<and> fig_path r3 = None \<and> error_field r3 = Inr e3 \<and>
         llm_log w3 = llm_log w @ [(CODER_MODEL, m1), (CODER_MODEL, m2), (CODER_MODEL, m3)] \<and>
         uuids_drawn w3 = uuids_drawn w + 3"
proof -
  have "execute_visualisation_code e instructions sql_result w = viz_loop e sql_result m1 0 None w"
    using assms(1,2) by (simp add: execute_visualisation_code_def prompt_task_def)
  also have "\<dots> = viz_loop e sql_result m2 (Suc 0) (Some r1) w1"
    unfolding assms(6) by (rule viz_loop_pass[OF _ assms(3,4,5)]) simp
  also have "\<dots> = viz_loop e sql_result m3 (Suc (Suc 0)) (Some r2) w2"
    unfolding assms(10) by (rule viz_loop_pass[OF _ assms(7,8,9)]) simp
  also have "\<dots> = viz_loop e sql_result (m3 @ [retry_message e3 (strip c3)]) (Suc (Suc (Suc 0))) (Some r3) w3"
    by (rule viz_loop_pass[OF _ assms(11,12,13)]) simp
  also have "\<dots> = (Inr r3, w3)"
    using viz_loop_exit by (simp add: numeral_3_eq_3)
  finally have run: "execute_visualisation_code e instructions sql_result w = (Inr r3, w3)" .
  have l1: "llm_log w1 = llm_log w @ [(CODER_MODEL, m1)]"
    using generate_visualisation_llm_log[OF assms(4)] by (simp add: log_request_def)
  have l2: "llm_log w2 = llm_log w1 @ [(CODER_MODEL, m2)]"
    using generate_visualisation_llm_log[OF assms(8)] by (simp add: log_request_def)
  have l3: "llm_log w3 = llm_log w2 @ [(CODER_MODEL, m3)]"
    using generate_visualisation_llm_log[OF assms(12)] by (simp add: log_request_def)
  have u: "uuids_drawn w3 = uuids_drawn w + 3"
    using generate_visualisation_draws_one[OF assms(4)] generate_visualisation_draws_one[OF assms(8)]
      generate_visualisation_draws_one[OF assms(12)]
    by (simp add: log_request_def)
  from run l1 l2 l3 u assms(13) error_field_failure[OF assms(13)] show ?thesis by simp
qed

lemma os_path_join_relative:
  assumes "\<not> os_path_isabs u"
  shows "os_path_join OUTPUT_DIR (u @ CHR ''.'' # sfx) = ''visualisation_outputs/'' @ u @ CHR ''.'' # sfx"
    and "os_path_join OUTPUT_DIR (u @ CHR ''_'' # sfx) = ''visualisation_outputs/'' @ u @ CHR ''_'' # sfx"
  using assms by (cases u; auto simp: os_path_join_def OUTPUT_DIR_def)+

lemma subscript_result_df_Inr:
  "subscript_result_df s = Inr (cols, rows) \<Longrightarrow> s = Some (SqlTable cols rows)"
  by (cases s rule: subscript_result_df.cases) auto

lemma generate_visualisation_ok:
  assumes "generate_visualisation e s c w = (Inr r, w')" "success r"
  shows "\<exists>cols rows df ns fs fig img js.
           s = Some (SqlTable cols rows) \<and>
           pd_DataFrame e rows cols = Inr df \<and>
           exec_code e (clean_code c) Map.empty (local_ns df) (files w) = (ExecDone ns, fs) \<and>
           ns ''fig'' = Some (PyFigure fig) \<and>
           to_image fig = MethodReturned img \<and> to_json fig = MethodReturned js \<and>
           r = VizOk (uuid4 e (uuids_drawn w)) (clean_code c)
                 (os_path_join OUTPUT_DIR (uuid4 e (uuids_drawn w) @ ''_fig.json'')) \<and>
           files w' = fs(os_path_join OUTPUT_DIR (uuid4 e (uuids_drawn w) @ ''.png'') \<mapsto> img,
                         os_path_join OUTPUT_DIR (uuid4 e (uuids_drawn w) @ ''_fig.json'') \<mapsto> js)"
proof (cases "subscript_result_df s")
  case (Inl x)
  with assms show ?thesis by (auto simp: generate_visualisation_def Let_def)
next
  case (Inr tbl)
  obtain cols rows where tbl: "tbl = (cols, rows)" by (cases tbl)
  note s = subscript_result_df_Inr[OF Inr[unfolded tbl]]
  show ?thesis
  proof (cases "pd_DataFrame e rows cols")
    case (Inl x)
    with assms Inr tbl show ?thesis by (auto simp: generate_visualisation_def Let_def)
  next
    case df: (Inr df)
    obtain out fs where ex: "exec_code e (clean_code c) Map.empty (local_ns df) (files w) = (out, fs)"
      by (meson surj_pair)
    from assms Inr tbl df ex s show ?thesis
      by (auto simp: generate_visualisation_def Let_def simp del: split_paired_Ex
               split: option.splits sum.splits exec_outcome.splits pyobj.splits
                      method_outcome.splits)
  qed
qed

text \<open>
  C5. Two successful calls of \<open>generate_visualisation\<close>, the second one later than the
  first, under the assumptions that \<open>uuid.uuid4\<close> never repeats an identifier and that
  its text is no absolute path. The first call was given a table, ran the cleaned code
  on its frame and found a figure under \<open>fig\<close>; it returns the identifier it drew, the
  code it ran and the path of the chart-description file. When it returns, the
  filesystem is the one the code left, with the figure's image under
  \<open>visualisation_outputs/<id>.png\<close> and the figure's JSON under
  \<open>visualisation_outputs/<id>_fig.json\<close>. The second call has a different identifier.
\<close>

theorem generate_visualisation_success:
  assumes "generate_visualisation e s1 c1 w1 = (Inr r1, w1')" and "success r1"
      and "generate_visualisation e s2 c2 w2 = (Inr r2, w2')" and "success r2"
      and "uuids_drawn w1' \<le> uuids_drawn w2"
      and "inj (uuid4 e)"
      and "\<not> os_path_isabs (uuid4 e (uuids_drawn w1))"
  shows "\<exists>cols rows df ns fs fig img js u1.
           s1 = Some (SqlTable cols rows) \<and>
           pd_DataFrame e rows cols = Inr df \<and>
           exec_code e (clean_code c1) Map.empty (local_ns df) (files w1) = (ExecDone ns, fs) \<and>
           ns ''fig'' = Some (PyFigure fig) \<and>
           to_image fig = MethodReturned img \<and> to_json fig = MethodReturned js \<and>
           u1 = uuid4 e (uuids_drawn w1) \<and>
           r1 = VizOk u1 (clean_code c1) (''visualisation_outputs/'' @ u1 @ ''_fig.json'') \<and>
           files w1' = fs(''visualisation_outputs/'' @ u1 @ ''.png'' \<mapsto> img,
                          ''visualisation_outputs/'' @ u1 @ ''_fig.json'' \<mapsto> js) \<and>
           (\<exists>u2 p2. r2 = VizOk u2 (clean_code c2) p2 \<and> u2 \<noteq> u1)"
proof -
  from generate_visualisation_ok[OF assms(1,2)] obtain cols rows df ns fs fig img js where
    a: "s1 = Some (SqlTable cols rows)" "pd_DataFrame e rows cols = Inr df"
       "exec_code e (clean_code c1) Map.empty (local_ns df) (files w1) = (ExecDone ns, fs)"
       "ns ''fig'' = Some (PyFigure fig)" "to_image fig = MethodReturned img" "to_json fig = MethodReturned js"
       "r1 = VizOk (uuid4 e (uuids_drawn w1)) (clean_code c1)
                 (os_path_join OUTPUT_DIR (uuid4 e (uuids_drawn w1) @ ''_fig.json''))"
       "files w1' = fs(os_path_join OUTPUT_DIR (uuid4 e (uuids_drawn w1) @ ''.png'') \<mapsto> img,
                         os_path_join OUTPUT_DIR (uuid4 e (uuids_drawn w1) @ ''_fig.json'') \<mapsto> js)"
    by blast
  from generate_visualisation_ok[OF assms(3,4)] have
    b: "r2 = VizOk (uuid4 e (uuids_drawn w2)) (clean_code c2)
                 (os_path_join OUTPUT_DIR (uuid4 e (uuids_drawn w2) @ ''_fig.json''))"
    by blast
  note rel = os_path_join_relative[OF assms(7)]
  have "uuids_drawn w1 < uuids_drawn w2"
    using generate_visualisation_draws_one[OF assms(1)] assms(5) by simp
  then have ne: "uuid4 e (uuids_drawn w2) \<noteq> uuid4 e (uuids_drawn w1)"
    using assms(6) by (auto dest: injD)
  have p1: "os_path_join OUTPUT_DIR (uuid4 e (uuids_drawn w1) @ ''.png'')
              = ''visualisation_outputs/'' @ uuid4 e (uuids_drawn w1) @ ''.png''"
    using rel(1)[of "''png''"] by simp
  have p2: "os_path_join OUTPUT_DIR (uuid4 e (uuids_drawn w1) @ ''_fig.json'')
              = ''visualisation_outputs/'' @ uuid4 e (uuids_drawn w1) @ ''_fig.json''"
    using rel(2)[of "''fig.json''"] by simp
  from a b ne show ?thesis unfolding p1 p2 by blast
qed

lemma strip_assert: "strip ''assert len(df) > 1000'' = ''assert len(df) > 1000''"
  by (simp add: strip_def py_space_def)

lemma gv_assert:
  "generate_visualisation (sample_env c) sample_table ''assert len(df) > 1000'' w =
     (Inr (VizRaised (Exn ''AssertionError'' [])), w\<lparr>uuids_drawn := Suc (uuids_drawn w)\<rparr>)"
  by (simp add: generate_visualisation_def sample_env_def sample_table_def
        exec_code_def sample_exec_def clean_code_def strip_def py_space_def Let_def)

lemma strip_chart: "strip ''chart = px.bar(df)'' = ''chart = px.bar(df)''"
  by (simp add: strip_def py_space_def)

lemma gv_chart:
  "generate_visualisation (sample_env c) sample_table ''chart = px.bar(df)'' w =
     (Inr VizNoFig, w\<lparr>uuids_drawn := Suc (uuids_drawn w)\<rparr>)"
  by (simp add: generate_visualisation_def sample_env_def sample_table_def
        exec_code_def sample_exec_def clean_code_def strip_def py_space_def Let_def local_ns_def)

lemma strip_broken: "strip ''fig = px.bar(df'' = ''fig = px.bar(df''"
  by (simp add: strip_def py_space_def)

lemma gv_broken:
  "generate_visualisation (sample_env c) sample_table ''fig = px.bar(df'' w =
     (Inr (VizRaised (Exn ''SyntaxError'' ''invalid syntax (<string>, line 1)'')),
      w\<lparr>uuids_drawn := Suc (uuids_drawn w)\<rparr>)"
  by (simp add: generate_visualisation_def sample_env_def sample_table_def
        exec_code_def sample_exec_def clean_code_def strip_def py_space_def Let_def)

lemma strip_exit: "strip ''raise SystemExit'' = ''raise SystemExit''"
  by (simp add: strip_def py_space_def)

lemma gv_exit:
  "generate_visualisation (sample_env c) sample_table ''raise SystemExit'' w =
     (Inl (Exn ''SystemExit'' []), w\<lparr>uuids_drawn := Suc (uuids_drawn w)\<rparr>)"
  by (simp add: generate_visualisation_def sample_env_def sample_table_def
        exec_code_def sample_exec_def clean_code_def strip_def py_space_def Let_def)

lemma json_dumps_sample: "json_dumps sample_table = Inr (DumpSql sample_table)"
  by (simp add: sample_table_def List.map_filter_def)

lemma three_asserts:
  "execute_visualisation_code failing_coder (Some ''bar chart of towns'') sample_table empty_world
     = (Inr (VizRaised (Exn ''AssertionError'' [])),
        empty_world\<lparr>uuids_drawn := 3,
          llm_log := [(CODER_MODEL, [User (VizPrompt sample_table (Some ''bar chart of towns''))]),
                      (CODER_MODEL, [User (VizPrompt sample_table (Some ''bar chart of towns'')),
                                     retry_message [] ''assert len(df) > 1000'']),
                      (CODER_MODEL, [User (VizPrompt sample_table (Some ''bar chart of towns'')),
                                     retry_message [] ''assert len(df) > 1000'',
                                     retry_message [] ''assert len(df) > 1000''])]\<rparr>)"
proof -
  let ?a = "''assert len(df) > 1000''"
  let ?r = "VizRaised (Exn ''AssertionError'' [])"
  let ?m1 = "[User (VizPrompt sample_table (Some ''bar chart of towns''))]"
  let ?m2 = "?m1 @ [retry_message [] (strip ?a)]"
  let ?m3 = "?m2 @ [retry_message [] (strip ?a)]"
  let ?w1 = "(log_request CODER_MODEL ?m1 empty_world)\<lparr>uuids_drawn := 1\<rparr>"
  let ?w2 = "(log_request CODER_MODEL ?m2 ?w1)\<lparr>uuids_drawn := 2\<rparr>"
  let ?w3 = "(log_request CODER_MODEL ?m3 ?w2)\<lparr>uuids_drawn := 3\<rparr>"
  have c: "msg_content (chat failing_coder CODER_MODEL ?m1) = Some ?a"
          "msg_content (chat failing_coder CODER_MODEL ?m2) = Some ?a"
          "msg_content (chat failing_coder CODER_MODEL ?m3) = Some ?a"
    by (simp_all add: failing_coder_def sample_env_def scripted_chat_def)
  have g1: "generate_visualisation failing_coder sample_table (strip ?a) (log_request CODER_MODEL ?m1 empty_world) = (Inr ?r, ?w1)"
    unfolding strip_assert failing_coder_def gv_assert by (simp add: log_request_def empty_world_def)
  have g2: "generate_visualisation failing_coder sample_table (strip ?a) (log_request CODER_MODEL ?m2 ?w1) = (Inr ?r, ?w2)"
    unfolding strip_assert failing_coder_def gv_assert by (simp add: log_request_def)
  have g3: "generate_visualisation failing_coder sample_table (strip ?a) (log_request CODER_MODEL ?m3 ?w2) = (Inr ?r, ?w3)"
    unfolding strip_assert failing_coder_def gv_assert by (simp add: log_request_def)
  have e: "error_field ?r = Inr []" by simp
  have "execute_visualisation_code failing_coder (Some ''bar chart of towns'') sample_table empty_world
          = viz_loop failing_coder sample_table ?m1 0 None empty_world"
    by (simp add: execute_visualisation_code_def json_dumps_sample prompt_task_def)
  also have "\<dots> = viz_loop failing_coder sample_table ?m2 (Suc 0) (Some ?r) ?w1"
    by (rule viz_loop_pass[OF _ c(1) g1 e]) simp
  also have "\<dots> = viz_loop failing_coder sample_table ?m3 (Suc (Suc 0)) (Some ?r) ?w2"
    by (rule viz_loop_pass[OF _ c(2) g2 e]) simp
  also have "\<dots> = viz_loop failing_coder sample_table (?m3 @ [retry_message [] (strip ?a)]) (Suc (Suc (Suc 0))) (Some ?r) ?w3"
    by (rule viz_loop_pass[OF _ c(3) g3 e]) simp
  also have "\<dots> = (Inr ?r, ?w3)"
    using viz_loop_exit by (simp add: numeral_3_eq_3)
  finally show ?thesis
    by (simp add: log_request_def empty_world_def strip_assert)
qed

lemma one_exit:
  "execute_visualisation_code exiting_coder (Some ''bar chart of towns'') sample_table empty_world
     = (Inl (Exn ''SystemExit'' []),
        empty_world\<lparr>uuids_drawn := 1,
          llm_log := [(CODER_MODEL, [User (VizPrompt sample_table (Some ''bar chart of towns''))])]\<rparr>)"
proof -
  let ?m1 = "[User (VizPrompt sample_table (Some ''bar chart of towns''))]"
  let ?w1 = "(log_request CODER_MODEL ?m1 empty_world)\<lparr>uuids_drawn := 1\<rparr>"
  have c: "msg_content (chat exiting_coder CODER_MODEL ?m1) = Some ''raise SystemExit''"
    by (simp add: exiting_coder_def sample_env_def scripted_chat_def)
  have g: "generate_visualisation exiting_coder sample_table (strip ''raise SystemExit'')
             (log_request CODER_MODEL ?m1 empty_world) = (Inl (Exn ''SystemExit'' []), ?w1)"
    unfolding strip_exit exiting_coder_def gv_exit by (simp add: log_request_def empty_world_def)
  have "execute_visualisation_code exiting_coder (Some ''bar chart of towns'') sample_table empty_world
          = viz_loop exiting_coder sample_table ?m1 0 None empty_world"
    by (simp add: execute_visualisation_code_def json_dumps_sample prompt_task_def)
  also have "\<dots> = (Inl (Exn ''SystemExit'' []), ?w1)"
    by (rule viz_loop_escape[OF _ c g]) simp
  finally show ?thesis by (simp add: log_request_def empty_world_def)
qed

text \<open>
  C4 as stated fails in two ways. When every attempt is the snippet
  \<open>assert len(df) > 1000\<close>, the assertion fails without a message, \<open>str(e)\<close> is empty and
  so is the \<open>error\<close> of the returned outcome. When the first attempt is
  \<open>raise SystemExit\<close>, the exception is not one \<open>except Exception\<close> catches: it leaves
  \<open>execute_visualisation_code\<close> after a single request, and no outcome is returned.
\<close>

theorem failing_code_counterexample:
  "fst (execute_visualisation_code failing_coder (Some ''bar chart of towns'') sample_table empty_world)
     = Inr (VizRaised (Exn ''AssertionError'' []))
   \<and> error_field (VizRaised (Exn ''AssertionError'' [])) = Inr []
   \<and> fst (execute_visualisation_code exiting_coder (Some ''bar chart of towns'') sample_table empty_world)
     = Inl (Exn ''SystemExit'' [])
   \<and> length (llm_log (snd (execute_visualisation_code exiting_coder (Some ''bar chart of towns'')
                              sample_table empty_world))) = 1"
  by (simp add: three_asserts one_exit)

theorem execute_visualisation_code_exhaustion_witness:
  "execute_visualisation_code three_failures (Some ''bar chart of towns'') sample_table empty_world
     = (Inr (VizRaised (Exn ''SyntaxError'' ''invalid syntax (<string>, line 1)'')),
        empty_world\<lparr>uuids_drawn := 3,
          llm_log := [(CODER_MODEL, [User (VizPrompt sample_table (Some ''bar chart of towns''))]),
                      (CODER_MODEL, [User (VizPrompt sample_table (Some ''bar chart of towns'')),
                                     retry_message ''No `fig` variable created.'' ''chart = px.bar(df)'']),
                      (CODER_MODEL, [User (VizPrompt sample_table (Some ''bar chart of towns'')),
                                     retry_message ''No `fig` variable created.'' ''chart = px.bar(df)'',
                                     retry_message [] ''assert len(df) > 1000''])]\<rparr>)"
proof -
  let ?m1 = "[User (VizPrompt sample_table (Some ''bar chart of towns''))]"
  let ?m2 = "?m1 @ [retry_message ''No `fig` variable created.'' (strip ''chart = px.bar(df)'')]"
  let ?m3 = "?m2 @ [retry_message [] (strip ''assert len(df) > 1000'')]"
  let ?w1 = "(log_request CODER_MODEL ?m1 empty_world)\<lparr>uuids_drawn := 1\<rparr>"
  let ?w2 = "(log_request CODER_MODEL ?m2 ?w1)\<lparr>uuids_drawn := 2\<rparr>"
  let ?w3 = "(log_request CODER_MODEL ?m3 ?w2)\<lparr>uuids_drawn := 3\<rparr>"
  let ?r3 = "VizRaised (Exn ''SyntaxError'' ''invalid syntax (<string>, line 1)'')"
  have c1: "msg_content (chat three_failures CODER_MODEL ?m1) = Some ''chart = px.bar(df)''"
    by (simp add: three_failures_def sample_env_def scripted_chat_def)
  have c2: "msg_content (chat three_failures CODER_MODEL ?m2) = Some ''assert len(df) > 1000''"
    by (simp add: three_failures_def sample_env_def scripted_chat_def)
  have c3: "msg_content (chat three_failures CODER_MODEL ?m3) = Some ''fig = px.bar(df''"
    by (simp add: three_failures_def sample_env_def scripted_chat_def)
  have g1: "generate_visualisation three_failures sample_table (strip ''chart = px.bar(df)'')
              (log_request CODER_MODEL ?m1 empty_world) = (Inr VizNoFig, ?w1)"
    unfolding strip_chart three_failures_def gv_chart by (simp add: log_request_def empty_world_def)
  have g2: "generate_visualisation three_failures sample_table (strip ''assert len(df) > 1000'')
              (log_request CODER_MODEL ?m2 ?w1) = (Inr (VizRaised (Exn ''AssertionError'' [])), ?w2)"
    unfolding strip_assert three_failures_def gv_assert by (simp add: log_request_def)
  have g3: "generate_visualisation three_failures sample_table (strip ''fig = px.bar(df'')
              (log_request CODER_MODEL ?m3 ?w2) = (Inr ?r3, ?w3)"
    unfolding strip_broken three_failures_def gv_broken by (simp add: log_request_def)
  have e1: "error_field VizNoFig = Inr ''No `fig` variable created.''" by simp
  have e2: "error_field (VizRaised (Exn ''AssertionError'' [])) = Inr []" by simp
  have e3: "error_field ?r3 = Inr ''invalid syntax (<string>, line 1)''" by simp
  from execute_visualisation_code_exhaustion[OF json_dumps_sample refl c1 g1 e1 refl c2 g2 e2 refl c3 g3 e3]
  have "execute_visualisation_code three_failures (Some ''bar chart of towns'') sample_table empty_world = (Inr ?r3, ?w3)"
    by simp
  then show ?thesis
    by (simp add: log_request_def empty_world_def strip_chart strip_assert)
qed

lemma inj_sample_uuid4: "inj sample_uuid4"
proof (rule injI)
  fix x y assume "sample_uuid4 x = sample_uuid4 y"
  then have "length (sample_uuid4 x) = length (sample_uuid4 y)" by simp
  then show "x = y" by (simp add: sample_uuid4_def)
qed

lemma clean_bar: "clean_code ''fig = px.bar(df, x=df.columns[0])'' = ''fig = px.bar(df, x=df.columns[0])''"
  by (simp add: clean_code_def strip_def py_space_def)

lemma gv_bar:
  "generate_visualisation (sample_env c) sample_table ''fig = px.bar(df, x=df.columns[0])'' w =
     (Inr (VizOk (sample_uuid4 (uuids_drawn w)) ''fig = px.bar(df, x=df.columns[0])''
        (os_path_join OUTPUT_DIR (sample_uuid4 (uuids_drawn w) @ ''_fig.json''))),
      w\<lparr>uuids_drawn := Suc (uuids_drawn w),
        files := (files w)(os_path_join OUTPUT_DIR (sample_uuid4 (uuids_drawn w) @ ''.png'') \<mapsto> ''PNG'',
                        os_path_join OUTPUT_DIR (sample_uuid4 (uuids_drawn w) @ ''_fig.json'') \<mapsto> ''{}'')\<rparr>)"
  unfolding generate_visualisation_def clean_bar
  by (simp add: sample_env_def sample_table_def sample_figure_def exec_code_def sample_exec_def Let_def)

lemma sample_paths:
  "os_path_join OUTPUT_DIR ''a.png'' = ''visualisation_outputs/a.png''"
  "os_path_join OUTPUT_DIR ''a_fig.json'' = ''visualisation_outputs/a_fig.json''"
  "os_path_join OUTPUT_DIR ''aa.png'' = ''visualisation_outputs/aa.png''"
  "os_path_join OUTPUT_DIR ''aa_fig.json'' = ''visualisation_outputs/aa_fig.json''"
  by (simp_all add: os_path_join_def OUTPUT_DIR_def)

theorem generate_visualisation_success_witness:
  "fst (generate_visualisation charting_coder sample_table ''fig = px.bar(df, x=df.columns[0])'' empty_world)
     = Inr (VizOk ''a'' ''fig = px.bar(df, x=df.columns[0])'' ''visualisation_outputs/a_fig.json'') \<and>
   files (snd (generate_visualisation charting_coder sample_table ''fig = px.bar(df, x=df.columns[0])'' empty_world))
     = [''visualisation_outputs/a.png'' \<mapsto> ''PNG'', ''visualisation_outputs/a_fig.json'' \<mapsto> ''{}''] \<and>
   fst (generate_visualisation charting_coder sample_table ''fig = px.bar(df, x=df.columns[0])''
         (snd (generate_visualisation charting_coder sample_table ''fig = px.bar(df, x=df.columns[0])'' empty_world)))
     = Inr (VizOk ''aa'' ''fig = px.bar(df, x=df.columns[0])'' ''visualisation_outputs/aa_fig.json'') \<and>
   ''aa'' \<noteq> ''a''"
proof -
  let ?c = "''fig = px.bar(df, x=df.columns[0])''"
  define w1 where "w1 = empty_world\<lparr>uuids_drawn := Suc 0,
      files := [''visualisation_outputs/a.png'' \<mapsto> ''PNG'', ''visualisation_outputs/a_fig.json'' \<mapsto> ''{}'']\<rparr>"
  define w2 where "w2 = w1\<lparr>uuids_drawn := Suc (Suc 0),
      files := (files w1)(''visualisation_outputs/aa.png'' \<mapsto> ''PNG'', ''visualisation_outputs/aa_fig.json'' \<mapsto> ''{}'')\<rparr>"
  have u0: "uuids_drawn empty_world = 0" "files empty_world = Map.empty" by (simp_all add: empty_world_def)
  have u1: "uuids_drawn w1 = Suc 0" by (simp add: w1_def)
  have f1: "files w1 = [''visualisation_outputs/a.png'' \<mapsto> ''PNG'', ''visualisation_outputs/a_fig.json'' \<mapsto> ''{}'']"
    by (simp add: w1_def)
  have h1: "generate_visualisation charting_coder sample_table ?c empty_world
              = (Inr (VizOk ''a'' ?c ''visualisation_outputs/a_fig.json''), w1)"
    unfolding charting_coder_def gv_bar u0 w1_def by (simp add: sample_uuid4_def sample_paths)
  have h2: "generate_visualisation charting_coder sample_table ?c w1
              = (Inr (VizOk ''aa'' ?c ''visualisation_outputs/aa_fig.json''), w2)"
    unfolding charting_coder_def gv_bar u1 w2_def by (simp add: sample_uuid4_def sample_paths)
  have inj: "inj (uuid4 charting_coder)"
    using inj_sample_uuid4 by (simp add: charting_coder_def sample_env_def)
  have rel: "\<not> os_path_isabs (uuid4 charting_coder (uuids_drawn empty_world))"
    by (simp add: charting_coder_def sample_env_def sample_uuid4_def u0)
  have s: "success (VizOk ''a'' ?c ''visualisation_outputs/a_fig.json'')"
          "success (VizOk ''aa'' ?c ''visualisation_outputs/aa_fig.json'')" by simp_all
  have ua: "uuid4 charting_coder (uuids_drawn empty_world) = ''a''"
    by (simp add: charting_coder_def sample_env_def sample_uuid4_def u0)
  from generate_visualisation_success[OF h1 s(1) h2 s(2) order_refl inj rel]
  have "\<exists>u2 p2. VizOk ''aa'' ?c ''visualisation_outputs/aa_fig.json'' = VizOk u2 (clean_code ?c) p2 \<and> u2 \<noteq> ''a''"
    unfolding ua by blast
  then have "''aa'' \<noteq> ''a''" by auto
  then show ?thesis unfolding h1 h2 fst_conv snd_conv f1 by simp
qed

section \<open>The chart tool needs a Query Result\<close>




lemma execute_sql_query_results:
  "subscript_result_df (Some (fst (execute_sql_query e q w))) = Inr tbl \<Longrightarrow> has_table (Some (fst (execute_sql_query e q w)))"
  by (cases "fst (execute_sql_query e q w)") auto






section \<open>The loop has no bound\<close>

lemma agent_loop_step:
  assumes "requested (chat e AGENT_MODEL (messages t)) \<noteq> []"
  shows "(let w1 = log_request AGENT_MODEL (messages t) w;
          msg = chat e AGENT_MODEL (messages t);
          t1 = t\<lparr>messages := messages t @ [Assistant msg]\<rparr>
      in case tool_calls msg of
           None \<Rightarrow> Some (Inr (final_output msg t1), w1)
         | Some [] \<Rightarrow> Some (Inr (final_output msg t1), w1)
         | Some (call # calls) \<Rightarrow>
             (case dispatch_calls e (call # calls) t1 w1 of
                (Inl x, w2) \<Rightarrow> Some (Inl x, w2)
              | (Inr t2, w2) \<Rightarrow> loop e t2 w2))
    = (case dispatch_calls e (requested (chat e AGENT_MODEL (messages t)))
              (t\<lparr>messages := messages t @ [Assistant (chat e AGENT_MODEL (messages t))]\<rparr>)
              (log_request AGENT_MODEL (messages t) w) of
                (Inl x, w2) \<Rightarrow> Some (Inl x, w2)
              | (Inr t2, w2) \<Rightarrow> loop e t2 w2)"
  using assms by (simp add: Let_def requested_def split: option.splits list.splits)

lemma agent_loop_never_returns:
  assumes "agent_loop e t w = Some y" and "always_requests e"
  shows "\<exists>x w'. y = (Inl x, w')"
proof -
  have "always_requests e \<longrightarrow> (\<exists>x w'. y = (Inl x, w'))"
    apply (rule agent_loop.raw_induct[where P="\<lambda>e t w y. always_requests e \<longrightarrow> (\<exists>x w'. y = (Inl x, w'))", OF _ assms(1)])
    subgoal premises prems for loop e t w y
    proof
      assume a: "always_requests e"
      then have r: "requested (chat e AGENT_MODEL (messages t)) \<noteq> []"
        by (simp add: always_requests_def)
      obtain r2 w2 where d: "dispatch_calls e (requested (chat e AGENT_MODEL (messages t)))
              (t\<lparr>messages := messages t @ [Assistant (chat e AGENT_MODEL (messages t))]\<rparr>)
              (log_request AGENT_MODEL (messages t) w) = (r2, w2)"
        by (meson surj_pair)
      show "\<exists>x w'. y = (Inl x, w')"
      proof (cases r2)
        case (Inl x)
        with prems(2) d have "y = (Inl x, w2)" unfolding agent_loop_step[OF r] by simp
        then show ?thesis by blast
      next
        case (Inr t2)
        with prems(2) d have "loop e t2 w2 = Some y" unfolding agent_loop_step[OF r] by simp
        then show ?thesis using prems(1) a by blast
      qed
    qed
    done
  with assms(2) show ?thesis by blast
qed

lemma agent_loop_diverges:
  assumes "always_requests e" and "never_raises e"
  shows "agent_loop e t w = None"
proof (rule ccontr)
  assume "agent_loop e t w \<noteq> None"
  then obtain y where y: "agent_loop e t w = Some y" by blast
  have "always_requests e \<and> never_raises e \<longrightarrow> False"
    apply (rule agent_loop.raw_induct[where P="\<lambda>e t w y. always_requests e \<and> never_raises e \<longrightarrow> False", OF _ y])
    subgoal premises prems for loop e t w y
    proof
      assume a: "always_requests e \<and> never_raises e"
      then have r: "requested (chat e AGENT_MODEL (messages t)) \<noteq> []"
        by (simp add: always_requests_def)
      obtain r2 w2 where d: "dispatch_calls e (requested (chat e AGENT_MODEL (messages t)))
              (t\<lparr>messages := messages t @ [Assistant (chat e AGENT_MODEL (messages t))]\<rparr>)
              (log_request AGENT_MODEL (messages t) w) = (r2, w2)"
        by (meson surj_pair)
      show False
      proof (cases r2)
        case (Inl x)
        with d a show ?thesis unfolding never_raises_def by blast
      next
        case (Inr t2)
        with prems(2) d have "loop e t2 w2 = Some y" unfolding agent_loop_step[OF r] by simp
        then show ?thesis using prems(1) a by blast
      qed
    qed
    done
  with assms show False by blast
qed


text \<open>
  C9, as the code has it. For a model that requests a tool on every call, \<open>main_agent\<close>
  never returns an output: the loop has no bound of its own and leaves only by an
  exception out of the dispatch. If no dispatch raises, it does not terminate at all.
\<close>

theorem main_agent_unbounded:
  assumes "always_requests e"
  shows "(\<forall>out w'. main_agent e user_input w \<noteq> Some (Inr out, w')) \<and>
         (never_raises e \<longrightarrow> main_agent e user_input w = None)"
proof
  show "\<forall>out w'. main_agent e user_input w \<noteq> Some (Inr out, w')"
    using agent_loop_never_returns[OF _ assms] unfolding main_agent_def by fastforce
  show "never_raises e \<longrightarrow> main_agent e user_input w = None"
    using agent_loop_diverges[OF assms] unfolding main_agent_def by blast
qed

lemma looping_requests: "always_requests looping_env"
  by (simp add: always_requests_def looping_env_def sample_env_def request_def requested_def)

lemma looping_never_raises: "never_raises looping_env"
  by (simp add: never_raises_def looping_env_def sample_env_def request_def requested_def
        dispatch_call_def tool_name_def)

theorem main_agent_unbounded_witness:
  "always_requests looping_env \<and> never_raises looping_env \<and>
   main_agent looping_env ''What is the weather in Bedok?'' empty_world = None"
  using main_agent_unbounded[OF looping_requests, of "''What is the weather in Bedok?''" empty_world]
    looping_requests looping_never_raises
  by blast

text \<open>
  C9 as stated fails: a model that requests a tool on every call, with arguments that
  are not JSON, ends \<open>main_agent\<close> at the first round-trip, by the \<open>JSONDecodeError\<close>
  that \<open>json.loads\<close> raises and nothing catches.
\<close>

theorem main_agent_terminates_counterexample:
  "always_requests stubborn_env \<and>
   map_option fst (main_agent stubborn_env ''How many flats were sold in 2016?'' empty_world)
     = Some (Inl (Exn ''JSONDecodeError'' ''Expecting value: line 1 column 1 (char 0)''))"
proof
  show "always_requests stubborn_env"
    by (simp add: always_requests_def stubborn_env_def sample_env_def request_def requested_def)
  show "map_option fst (main_agent stubborn_env ''How many flats were sold in 2016?'' empty_world)
     = Some (Inl (Exn ''JSONDecodeError'' ''Expecting value: line 1 column 1 (char 0)''))"
    unfolding main_agent_def
    by (subst agent_loop.simps)
       (simp add: stubborn_env_def sample_env_def request_def dispatch_call_def tool_name_def Let_def)
qed

end
